theory Spec2Isabelle
  imports Main
begin

section \<open>Python values, exceptions and formatting\<close>

text \<open>
  The values the callback reads out of the tracking backend's records: \<open>None\<close>, strings,
  integers and dictionaries (a dictionary is an association list, looked up with
  \<open>map_of\<close>).
\<close>

datatype pyval = PNone | PStr string | PInt int | PDict "(string \<times> pyval) list"

text \<open>
  The exceptions that occur in \<open>shothammer.py\<close>. \<open>TankError\<close> carries \<open>str(e)\<close>, which the
  source writes to the log; \<open>OSError\<close> is what opening a file for writing raises;
  \<open>OtherError\<close> stands for whatever else an external collaborator raises.
\<close>

datatype exn = TypeError | KeyError | TankError string | OSError | OtherError string

text \<open>\<open>v[k]\<close> for a string key \<open>k\<close>: only a dictionary is subscriptable by a string.\<close>

fun py_getitem :: "pyval \<Rightarrow> string \<Rightarrow> exn + pyval" where
  "py_getitem (PDict d) k = (case map_of d k of None \<Rightarrow> Inl KeyError | Some v \<Rightarrow> Inr v)"
| "py_getitem PNone k = Inl TypeError"
| "py_getitem (PStr s) k = Inl TypeError"
| "py_getitem (PInt i) k = Inl TypeError"

text \<open>\<open>str(n)\<close> for a natural number and for an integer.\<close>

fun str_nat :: "nat \<Rightarrow> string" where
  "str_nat n = (if n < 10 then [''0123456789'' ! n]
                else str_nat (n div 10) @ [''0123456789'' ! (n mod 10)])"

declare str_nat.simps [simp del]

definition str_int :: "int \<Rightarrow> string" where
  "str_int i = (if i < 0 then ''-'' @ str_nat (nat (- i)) else str_nat (nat i))"

text \<open>\<open>"%i" % v\<close>: a string, \<open>None\<close> or a dictionary is not a number.\<close>

fun fmt_i :: "pyval \<Rightarrow> exn + string" where
  "fmt_i (PInt i) = Inr (str_int i)"
| "fmt_i (PStr s) = Inl TypeError"
| "fmt_i PNone = Inl TypeError"
| "fmt_i (PDict d) = Inl TypeError"

text \<open>\<open>s.startswith(p)\<close>.\<close>

definition startswith :: "string \<Rightarrow> string \<Rightarrow> bool" where
  "startswith s p = (take (length p) s = p)"

text \<open>
  A \<open>datetime\<close> and \<open>strftime("%Y-%m-%d_%H-%M-%S")\<close>: the year zero-padded to four
  digits, every other field to two (for the years from 1000 on, which are those of event
  times, every platform's \<open>%Y\<close> gives these four digits).
\<close>

record datetime =
  year :: nat
  month :: nat
  day :: nat
  hour :: nat
  minute :: nat
  second :: nat

definition zero_pad :: "nat \<Rightarrow> string \<Rightarrow> string" where
  "zero_pad w s = replicate (w - length s) CHR ''0'' @ s"

definition strftime :: "datetime \<Rightarrow> string" where
  "strftime d =
     zero_pad 4 (str_nat (year d)) @ ''-'' @ zero_pad 2 (str_nat (month d)) @ ''-'' @
     zero_pad 2 (str_nat (day d)) @ ''_'' @ zero_pad 2 (str_nat (hour d)) @ ''-'' @
     zero_pad 2 (str_nat (minute d)) @ ''-'' @ zero_pad 2 (str_nat (second d))"

section \<open>The event\<close>

text \<open>
  An \<open>EventLogEntry\<close> dictionary: \<open>event['project']\<close> is \<open>None\<close> or a dictionary with
  \<open>id\<close> and \<open>name\<close>, \<open>event['entity']\<close> has \<open>id\<close> and \<open>name\<close>,
  \<open>event['meta']\<close> has \<open>type\<close> and the lists \<open>added\<close> and \<open>removed\<close> of dictionaries
  with a \<open>name\<close>.
\<close>

record project_ref =
  project_id :: int
  project_name :: string

record entity_ref =
  entity_id :: int
  entity_name :: pyval

record tag_ref =
  tag_name :: string

record meta_info =
  meta_type :: string
  added :: "tag_ref list"
  removed :: "tag_ref list"

record event =
  project :: "project_ref option"
  entity :: entity_ref
  meta :: meta_info
  created_at :: datetime

section \<open>Configuration\<close>

text \<open>
  The module's globals read from \<open>shothammer_config.ini\<close>. \<open>SGHS_PROJECTS\<close> is \<open>None\<close>
  when the option is the empty string, else the list of the integers between its commas.
\<close>

record config =
  SGHS_PROJECTS :: "int list option"
  SGHS_TAG_NAMESPACE :: string
  CAPTURE_LAST_EVENT :: bool
  LAST_EVENT_FILE :: string

text \<open>\<open>s.split(',')\<close>.\<close>

fun split_comma :: "string \<Rightarrow> string list" where
  "split_comma [] = [[]]"
| "split_comma (c # cs) =
     (if c = CHR '','' then [] # split_comma cs
      else (case split_comma cs of [] \<Rightarrow> [[c]] | w # ws \<Rightarrow> (c # w) # ws))"

text \<open>
  Lines 16 to 19. The built-in \<open>int\<close> is a parameter (here total: a string it rejects
  stops the module from loading, and no callback runs).
\<close>

definition load_SGHS_PROJECTS :: "(string \<Rightarrow> int) \<Rightarrow> string \<Rightarrow> int list option" where
  "load_SGHS_PROJECTS py_int raw =
     (if raw = [] then None else Some (map py_int (split_comma raw)))"

section \<open>External collaborators and effects\<close>

type_synonym fields = "(string \<times> pyval) list"

type_synonym filters = "(string \<times> string \<times> int) list"

text \<open>
  A bootstrapped engine: its templates (each template is its \<open>apply_fields\<close>) and the
  \<open>find_one\<close> of its backend connection.
\<close>

record engine =
  templates :: "string \<Rightarrow> (fields \<Rightarrow> exn + string) option"
  find_one :: "string \<Rightarrow> filters \<Rightarrow> string list \<Rightarrow> exn + pyval"

text \<open>
  The world outside the callback: \<open>manager.bootstrap_engine\<close>, opening a file for writing
  and pickling into it (\<open>None\<close> when it succeeds), and \<open>subprocess.run\<close> with the captured
  standard output and standard error (it is called without \<open>check\<close>, so a failing command
  raises nothing).
\<close>

record env =
  bootstrap_engine :: "string \<Rightarrow> string \<Rightarrow> int \<Rightarrow> exn + engine"
  write_pickle :: "string \<Rightarrow> exn option"
  subprocess_run :: "string \<Rightarrow> string \<times> string"

datatype level = Debug | Info | Warning | Error

text \<open>
  What is logged. A message whose text is built from strings only is \<open>Rendered\<close>; a
  message that prints an object keeps the object.
\<close>

datatype logmsg =
    Rendered string
  | Pprint_result
  | Manager_object
  | Engine_object
  | Template_object
  | Full_shot pyval
  | TypeError_from string
  | Tags_to_add "string list"
  | Output string

text \<open>
  Everything the callback does to the outside, in the order it does it. A call of a
  collaborator is recorded with what it returned or raised.
\<close>

datatype effect =
    Pprint event
  | Log level logmsg
  | RootLog level logmsg
  | Capture string event "exn option"
  | Bootstrap string string int "exn option"
  | FindOne string filters "string list" "exn + pyval"
  | ApplyFields fields "exn + string"
  | Destroy
  | Run string

type_synonym 'a io = "effect list \<times> (exn + 'a)"

definition return_io :: "'a \<Rightarrow> 'a io" where
  "return_io x = ([], Inr x)"

definition raise_io :: "exn \<Rightarrow> 'a io" where
  "raise_io e = ([], Inl e)"

definition emit :: "effect \<Rightarrow> unit io" where
  "emit e = ([e], Inr ())"

definition bind_io :: "'a io \<Rightarrow> ('a \<Rightarrow> 'b io) \<Rightarrow> 'b io" where
  "bind_io m f =
     (case m of
        (t, Inl e) \<Rightarrow> (t, Inl e)
      | (t, Inr x) \<Rightarrow> (case f x of (t', r) \<Rightarrow> (t @ t', r)))"

definition then_io :: "'a io \<Rightarrow> 'b io \<Rightarrow> 'b io" where
  "then_io m k = bind_io m (\<lambda>_. k)"

text \<open>A call that may raise, recorded by \<open>eff\<close>.\<close>

definition call_io :: "effect \<Rightarrow> exn + 'a \<Rightarrow> 'a io" where
  "call_io eff r = ([eff], r)"

definition lift_io :: "exn + 'a \<Rightarrow> 'a io" where
  "lift_io r = ([], r)"

section \<open>The callback\<close>

text \<open>Lines 260 to 275: the accessors of the event.\<close>

definition project_name_from_event :: "event \<Rightarrow> exn + string" where
  "project_name_from_event ev =
     (case project ev of None \<Rightarrow> Inl TypeError | Some pr \<Rightarrow> Inr (project_name pr))"

definition is_attribute_change :: "event \<Rightarrow> bool" where
  "is_attribute_change ev = (meta_type (meta ev) = ''attribute_change'')"

definition get_shot_code :: "event \<Rightarrow> pyval" where
  "get_shot_code ev = entity_name (entity ev)"

definition get_project_id :: "event \<Rightarrow> exn + int" where
  "get_project_id ev =
     (case project ev of None \<Rightarrow> Inl TypeError | Some pr \<Rightarrow> Inr (project_id pr))"

text \<open>\<open>x in xs\<close>, where \<open>xs\<close> is a list or \<open>None\<close>: \<open>None\<close> is not iterable.\<close>

definition py_in :: "int \<Rightarrow> int list option \<Rightarrow> exn + bool" where
  "py_in x xs = (case xs of None \<Rightarrow> Inl TypeError | Some ys \<Rightarrow> Inr (x \<in> set ys))"

text \<open>\<open>if path:\<close> for a path that is \<open>None\<close> or a string.\<close>

definition truthy :: "string option \<Rightarrow> bool" where
  "truthy path = (case path of None \<Rightarrow> False | Some p \<Rightarrow> p \<noteq> [])"

text \<open>Lines 107 to 114.\<close>

definition capture_event :: "env \<Rightarrow> event \<Rightarrow> string \<Rightarrow> unit io" where
  "capture_event env ev filename =
     call_io (Capture filename ev (write_pickle env filename))
       (case write_pickle env filename of None \<Rightarrow> Inr () | Some e \<Rightarrow> Inl e)"

text \<open>
  Lines 238 to 243 and 253 to 258: the command is run and its output logged on the
  root logger.
\<close>

definition run_and_log :: "env \<Rightarrow> string \<Rightarrow> string \<Rightarrow> unit io" where
  "run_and_log env who cmd =
     then_io (emit (Run cmd))
    (then_io (emit (RootLog Debug (Rendered who)))
    (then_io (emit (RootLog Debug (Rendered ''STDOUT:'')))
    (then_io (emit (RootLog Debug (Output (fst (subprocess_run env cmd)))))
    (then_io (emit (RootLog Debug (Rendered ''STDERR:'')))
             (emit (RootLog Debug (Output (snd (subprocess_run env cmd)))))))))"

text \<open>Lines 230 to 243.\<close>

definition hs_keyword_add :: "config \<Rightarrow> env \<Rightarrow> string \<Rightarrow> string \<Rightarrow> bool \<Rightarrow> unit io" where
  "hs_keyword_add cfg env path keyword recursive =
     (if \<not> startswith keyword (SGHS_TAG_NAMESPACE cfg)
      then emit (RootLog Debug (Rendered ''tag %s not in namespace, skipping''))
      else run_and_log env ''hs_keyword_add()''
             (if recursive then ''hs keyword add -r '' @ keyword @ '' '' @ path
              else ''hs keyword add '' @ keyword @ '' '' @ path))"

text \<open>Lines 245 to 258.\<close>

definition hs_keyword_delete :: "config \<Rightarrow> env \<Rightarrow> string \<Rightarrow> string \<Rightarrow> bool \<Rightarrow> unit io" where
  "hs_keyword_delete cfg env path keyword recursive =
     (if \<not> startswith keyword (SGHS_TAG_NAMESPACE cfg)
      then emit (RootLog Debug (Rendered ''tag %s not in namespace, skipping''))
      else run_and_log env ''hs_keyword_delete()''
             (if recursive then ''hs keyword delete -r '' @ keyword @ '' '' @ path
              else ''hs keyword delete '' @ keyword @ '' '' @ path))"

text \<open>Lines 116 to 129: the loop over \<open>tags_to_add\<close>, then the function.\<close>

fun add_tags_loop :: "config \<Rightarrow> env \<Rightarrow> string \<Rightarrow> string list \<Rightarrow> unit io" where
  "add_tags_loop cfg env path [] = return_io ()"
| "add_tags_loop cfg env path (tag # tags) =
     then_io (emit (Log Info (Rendered (''Setting keyword '' @ tag @ '' on path '' @ path))))
    (then_io (hs_keyword_add cfg env path tag False)
             (add_tags_loop cfg env path tags))"

definition add_tags :: "config \<Rightarrow> env \<Rightarrow> event \<Rightarrow> string \<Rightarrow> unit io" where
  "add_tags cfg env ev path =
     then_io (emit (Log Debug (Tags_to_add (map tag_name (added (meta ev))))))
             (add_tags_loop cfg env path (map tag_name (added (meta ev))))"

text \<open>Lines 131 to 142.\<close>

fun remove_tags_loop :: "config \<Rightarrow> env \<Rightarrow> string \<Rightarrow> string list \<Rightarrow> unit io" where
  "remove_tags_loop cfg env path [] = return_io ()"
| "remove_tags_loop cfg env path (tag # tags) =
     then_io (emit (Log Info (Rendered (''Removing keyword '' @ tag @ '' from path '' @ path))))
    (then_io (hs_keyword_delete cfg env path tag False)
             (remove_tags_loop cfg env path tags))"

definition remove_tags :: "config \<Rightarrow> env \<Rightarrow> event \<Rightarrow> string \<Rightarrow> unit io" where
  "remove_tags cfg env ev path =
     remove_tags_loop cfg env path (map tag_name (removed (meta ev)))"

text \<open>
  Lines 180 to 194: each of the three \<open>try\<close> blocks reads a field of \<open>full_shot\<close>; a
  \<open>TypeError\<close> is logged as a warning and gives \<open>None\<close>, any other exception goes on.
\<close>

definition field_or_none :: "string \<Rightarrow> exn + pyval \<Rightarrow> pyval io" where
  "field_or_none what r =
     (case r of
        Inr v \<Rightarrow> return_io v
      | Inl TypeError \<Rightarrow>
          then_io (emit (Log Warning (TypeError_from what))) (return_io PNone)
      | Inl e \<Rightarrow> raise_io e)"

text \<open>\<open>full_shot['sg_episode']['name']\<close>.\<close>

definition episode_name :: "pyval \<Rightarrow> exn + pyval" where
  "episode_name full_shot =
     (case py_getitem full_shot ''sg_episode'' of
        Inl e \<Rightarrow> Inl e
      | Inr ep \<Rightarrow> py_getitem ep ''name'')"

text \<open>
  Lines 196 to 212: the template call. A \<open>TankError\<close> is caught: the event is saved under
  a name made of the shot's id and the event's time, and the result is \<open>None\<close>.
\<close>

definition compose_path :: "env \<Rightarrow> event \<Rightarrow> (fields \<Rightarrow> exn + string) \<Rightarrow> fields \<Rightarrow> string option io" where
  "compose_path env ev work_shot_area_template fm =
     (case work_shot_area_template fm of
        Inr result \<Rightarrow>
          then_io (emit (ApplyFields fm (Inr result)))
         (then_io (emit (Log Debug (Rendered (''Full path: '' @ result))))
                  (return_io (Some result)))
      | Inl (TankError msg) \<Rightarrow>
          then_io (emit (ApplyFields fm (Inl (TankError msg))))
         (then_io (emit (Log Error (Rendered
                    (''Unable to apply all required fields, saving event as '' @
                     (''shot_id-'' @ str_int (entity_id (entity ev)) @ ''-'' @
                      strftime (created_at ev) @ ''.pickle'') @
                     [CHR 0x0A] @ ''Exception message: '' @ msg))))
         (then_io (capture_event env ev
                    (''shot_id-'' @ str_int (entity_id (entity ev)) @ ''-'' @
                     strftime (created_at ev) @ ''.pickle''))
                  (return_io None)))
      | Inl e \<Rightarrow> call_io (ApplyFields fm (Inl e)) (Inl e))"

text \<open>
  Lines 154 to 178, the first part of \<open>bootstrap_engine_to_shot_path\<close>: the engine is
  bootstrapped for the shot, its \<open>work_shot_area\<close> template is taken (a missing key of
  \<open>engine.sgtk.templates\<close> is a \<open>KeyError\<close>) and the shot is looked up.
\<close>

definition resolve_shot :: "env \<Rightarrow> event \<Rightarrow> ((fields \<Rightarrow> exn + string) \<times> pyval) io" where
  "resolve_shot env ev =
     then_io (emit (Log Debug Manager_object))
    (then_io (emit (Log Debug (Rendered
               (''Trying to bootstrap shot ID '' @ str_int (entity_id (entity ev))))))
    (bind_io (call_io (Bootstrap ''tk-shell'' ''Shot'' (entity_id (entity ev))
                        (case bootstrap_engine env ''tk-shell'' ''Shot'' (entity_id (entity ev)) of
                           Inl e \<Rightarrow> Some e | Inr _ \<Rightarrow> None))
                      (bootstrap_engine env ''tk-shell'' ''Shot'' (entity_id (entity ev))))
       (\<lambda>engine.
     then_io (emit (Log Debug Engine_object))
    (bind_io (case templates engine ''work_shot_area'' of
                None \<Rightarrow> raise_io KeyError | Some t \<Rightarrow> return_io t)
       (\<lambda>work_shot_area_template.
     then_io (emit (Log Debug Template_object))
    (bind_io (call_io (FindOne ''Shot'' [(''id'', ''is'', entity_id (entity ev))]
                         [''id'', ''type'', ''code'', ''sg_episode'', ''sg_sequence'']
                         (find_one engine ''Shot'' [(''id'', ''is'', entity_id (entity ev))]
                            [''id'', ''type'', ''code'', ''sg_episode'', ''sg_sequence'']))
                      (find_one engine ''Shot'' [(''id'', ''is'', entity_id (entity ev))]
                         [''id'', ''type'', ''code'', ''sg_episode'', ''sg_sequence'']))
       (\<lambda>full_shot.
     then_io (emit (Log Debug (Full_shot full_shot)))
             (return_io (work_shot_area_template, full_shot)))))))))"

text \<open>
  Lines 180 to 194, and the dictionary of lines 198 to 201: the three fields read out of
  \<open>full_shot\<close>. The sequence is \<open>full_shot['sg_sequence']\<close> as it is; the episode is
  \<open>full_shot['sg_episode']['name']\<close>.
\<close>

definition shot_fields :: "pyval \<Rightarrow> fields io" where
  "shot_fields full_shot =
     bind_io (field_or_none ''Shot'' (py_getitem full_shot ''code''))
       (\<lambda>Shot.
     bind_io (field_or_none ''Sequence'' (py_getitem full_shot ''sg_sequence''))
       (\<lambda>Sequence.
     bind_io (field_or_none ''Episode'' (episode_name full_shot))
       (\<lambda>Episode.
     return_io [(''Shot'', Shot), (''Sequence'', Sequence), (''Episode'', Episode)])))"

text \<open>
  Lines 145 to 216: the three parts in sequence, then \<open>engine.destroy()\<close> and the
  \<open>return\<close>. No part is inside a \<open>try\<close> with a \<open>finally\<close>: an exception that leaves a
  part leaves the function.
\<close>

definition bootstrap_engine_to_shot_path :: "env \<Rightarrow> event \<Rightarrow> string option io" where
  "bootstrap_engine_to_shot_path env ev =
     bind_io (resolve_shot env ev)
       (\<lambda>(work_shot_area_template, full_shot).
     bind_io (shot_fields full_shot)
       (\<lambda>fm.
     bind_io (compose_path env ev work_shot_area_template fm)
       (\<lambda>result.
     then_io (emit Destroy) (return_io result))))"

text \<open>Lines 77 to 105.\<close>

definition shothammer :: "config \<Rightarrow> env \<Rightarrow> event \<Rightarrow> unit io" where
  "shothammer cfg env ev =
     then_io (emit (Pprint ev))
    (then_io (emit (Log Debug Pprint_result))
     (case project_name_from_event ev of
        Inl TypeError \<Rightarrow>
          bind_io (lift_io (fmt_i (get_shot_code ev)))
            (\<lambda>code. emit (Log Warning (Rendered (''Project is none in event from shot '' @ code))))
      | Inl e \<Rightarrow> raise_io e
      | Inr pname \<Rightarrow>
          then_io (emit (Log Debug (Rendered pname)))
         (then_io (if CAPTURE_LAST_EVENT cfg then capture_event env ev (LAST_EVENT_FILE cfg)
                   else return_io ())
         (bind_io (bind_io (lift_io (get_project_id ev))
                     (\<lambda>pid. bind_io (lift_io (py_in pid (SGHS_PROJECTS cfg)))
                        (\<lambda>allowed. if allowed then bootstrap_engine_to_shot_path env ev
                                   else return_io None)))
            (\<lambda>path. if truthy path
                     then then_io (add_tags cfg env ev (the path))
                                  (remove_tags cfg env ev (the path))
                     else return_io ())))))"

section \<open>What a trace contains\<close>

text \<open>The shell commands run, the files captured, the lookups and the template calls.\<close>

fun commands :: "effect list \<Rightarrow> string list" where
  "commands [] = []"
| "commands (Run c # t) = c # commands t"
| "commands (_ # t) = commands t"

fun captures :: "effect list \<Rightarrow> string list" where
  "captures [] = []"
| "captures (Capture f ev r # t) = f # captures t"
| "captures (_ # t) = captures t"

fun lookups :: "effect list \<Rightarrow> (string \<times> filters \<times> string list) list" where
  "lookups [] = []"
| "lookups (FindOne ty fl fs r # t) = (ty, fl, fs) # lookups t"
| "lookups (_ # t) = lookups t"

fun template_calls :: "effect list \<Rightarrow> fields list" where
  "template_calls [] = []"
| "template_calls (ApplyFields fm r # t) = fm # template_calls t"
| "template_calls (_ # t) = template_calls t"

fun destroys :: "effect list \<Rightarrow> nat" where
  "destroys [] = 0"
| "destroys (Destroy # t) = Suc (destroys t)"
| "destroys (_ # t) = destroys t"

fun bootstraps :: "effect list \<Rightarrow> nat" where
  "bootstraps [] = 0"
| "bootstraps (Bootstrap a b c None # t) = Suc (bootstraps t)"
| "bootstraps (_ # t) = bootstraps t"

text \<open>
  The paths the template returned, the messages of the template errors it raised, and the
  texts logged at error level.
\<close>

fun paths :: "effect list \<Rightarrow> string list" where
  "paths [] = []"
| "paths (ApplyFields fm (Inr p) # t) = p # paths t"
| "paths (_ # t) = paths t"

fun template_errors :: "effect list \<Rightarrow> string list" where
  "template_errors [] = []"
| "template_errors (ApplyFields fm (Inl (TankError msg)) # t) = msg # template_errors t"
| "template_errors (_ # t) = template_errors t"

fun error_logs :: "effect list \<Rightarrow> string list" where
  "error_logs [] = []"
| "error_logs (Log Error (Rendered s) # t) = s # error_logs t"
| "error_logs (_ # t) = error_logs t"

section \<open>A concrete event and its surroundings\<close>

text \<open>
  The event, configuration and collaborators of the end-to-end scenario: project 5, shot
  9502, one added tag, the allow-list \<open>[5]\<close> and the prefix \<open>sghs:\<close>.
\<close>

definition ex_event :: event where
  "ex_event =
     \<lparr>project = Some \<lparr>project_id = 5, project_name = ''proj''\<rparr>,
      entity = \<lparr>entity_id = 9502, entity_name = PStr ''ep01_seq01_sh010''\<rparr>,
      meta = \<lparr>meta_type = ''attribute_change'', added = [\<lparr>tag_name = ''sghs:hero''\<rparr>],
              removed = []\<rparr>,
      created_at = \<lparr>year = 2023, month = 5, day = 17, hour = 9, minute = 3, second = 7\<rparr>\<rparr>"

definition ex_config :: config where
  "ex_config =
     \<lparr>SGHS_PROJECTS = Some [5], SGHS_TAG_NAMESPACE = ''sghs:'', CAPTURE_LAST_EVENT = False,
      LAST_EVENT_FILE = ''last_event.pickle''\<rparr>"

text \<open>A shot whose sequence field is a plain string, and one whose sequence is a link.\<close>

definition ex_shot :: pyval where
  "ex_shot =
     PDict [(''type'', PStr ''Shot''), (''id'', PInt 9502), (''code'', PStr ''sh010''),
            (''sg_episode'',
               PDict [(''type'', PStr ''Episode''), (''id'', PInt 4), (''name'', PStr ''ep01'')]),
            (''sg_sequence'', PStr ''seq01'')]"

definition ex_shot_linked :: pyval where
  "ex_shot_linked =
     PDict [(''type'', PStr ''Shot''), (''id'', PInt 9502), (''code'', PStr ''sh010''),
            (''sg_episode'',
               PDict [(''type'', PStr ''Episode''), (''id'', PInt 4), (''name'', PStr ''ep01'')]),
            (''sg_sequence'',
               PDict [(''type'', PStr ''Sequence''), (''id'', PInt 3), (''name'', PStr ''seq01'')])]"

text \<open>A template that needs all three fields to be strings.\<close>

definition ex_template :: "fields \<Rightarrow> exn + string" where
  "ex_template fm =
     (case map_of fm ''Sequence'' of
        Some (PStr s) \<Rightarrow>
          (case map_of fm ''Episode'' of
             Some (PStr e) \<Rightarrow>
               (case map_of fm ''Shot'' of
                  Some (PStr c) \<Rightarrow> Inr (''/proj/'' @ s @ ''/'' @ e @ ''/'' @ c)
                | _ \<Rightarrow> Inl (TankError ''missing Shot''))
           | _ \<Rightarrow> Inl (TankError ''missing Episode''))
      | _ \<Rightarrow> Inl (TankError ''missing Sequence''))"

definition ex_engine :: "exn + pyval \<Rightarrow> engine" where
  "ex_engine found =
     \<lparr>templates = (\<lambda>n. if n = ''work_shot_area'' then Some ex_template else None),
      find_one = (\<lambda>ty fl fs. found)\<rparr>"

definition ex_env :: "exn + pyval \<Rightarrow> exn option \<Rightarrow> env" where
  "ex_env found written =
     \<lparr>bootstrap_engine = (\<lambda>e ty i. Inr (ex_engine found)),
      write_pickle = (\<lambda>f. written),
      subprocess_run = (\<lambda>c. ([], []))\<rparr>"

text \<open>
  The same event with one tag both added and removed, with another kind of change, and
  without a project.
\<close>

definition ex_event_both :: event where
  "ex_event_both =
     ex_event\<lparr>meta := \<lparr>meta_type = ''attribute_change'', added = [\<lparr>tag_name = ''sghs:x''\<rparr>],
                        removed = [\<lparr>tag_name = ''sghs:x''\<rparr>]\<rparr>\<rparr>"

definition ex_event_new_entity :: event where
  "ex_event_new_entity = ex_event\<lparr>meta := (meta ex_event)\<lparr>meta_type := ''new_entity''\<rparr>\<rparr>"

definition ex_event_no_project :: event where
  "ex_event_no_project = ex_event\<lparr>project := None\<rparr>"

section \<open>Traces and results, part by part\<close>

lemmas io_defs = return_io_def raise_io_def emit_def then_io_def call_io_def lift_io_def

lemma fst_bind_io:
  "fst (bind_io m f) = (case snd m of Inl e \<Rightarrow> fst m | Inr x \<Rightarrow> fst m @ fst (f x))"
  by (auto simp: bind_io_def split: prod.splits sum.splits)

lemma snd_bind_io:
  "snd (bind_io m f) = (case snd m of Inl e \<Rightarrow> Inl e | Inr x \<Rightarrow> snd (f x))"
  by (auto simp: bind_io_def split: prod.splits sum.splits)

lemma commands_append: "commands (a @ b) = commands a @ commands b"
  by (induction a rule: commands.induct) auto
lemma destroys_append: "destroys (a @ b) = destroys a + destroys b"
  by (induction a rule: destroys.induct) auto
lemma bootstraps_append: "bootstraps (a @ b) = bootstraps a + bootstraps b"
  by (induction a rule: bootstraps.induct) auto
lemma lookups_append: "lookups (a @ b) = lookups a @ lookups b"
  by (induction a rule: lookups.induct) auto
lemma captures_append: "captures (a @ b) = captures a @ captures b"
  by (induction a rule: captures.induct) auto
lemma template_calls_append: "template_calls (a @ b) = template_calls a @ template_calls b"
  by (induction a rule: template_calls.induct) auto
lemma paths_append: "paths (a @ b) = paths a @ paths b"
  by (induction a rule: paths.induct) auto
lemma template_errors_append: "template_errors (a @ b) = template_errors a @ template_errors b"
  by (induction a rule: template_errors.induct) auto
lemma error_logs_append: "error_logs (a @ b) = error_logs a @ error_logs b"
  by (induction a rule: error_logs.induct) auto

lemmas proj_append = commands_append destroys_append bootstraps_append lookups_append
  captures_append template_calls_append paths_append template_errors_append error_logs_append

text \<open>The trace and the result of each part of path resolution.\<close>

lemma fst_resolve_shot:
  "fst (resolve_shot env ev) =
     [Log Debug Manager_object,
      Log Debug (Rendered (''Trying to bootstrap shot ID '' @ str_int (entity_id (entity ev))))] @
     (case bootstrap_engine env ''tk-shell'' ''Shot'' (entity_id (entity ev)) of
        Inl e \<Rightarrow> [Bootstrap ''tk-shell'' ''Shot'' (entity_id (entity ev)) (Some e)]
      | Inr engine \<Rightarrow>
          [Bootstrap ''tk-shell'' ''Shot'' (entity_id (entity ev)) None, Log Debug Engine_object] @
          (case templates engine ''work_shot_area'' of
             None \<Rightarrow> []
           | Some t \<Rightarrow>
               [Log Debug Template_object,
                FindOne ''Shot'' [(''id'', ''is'', entity_id (entity ev))]
                  [''id'', ''type'', ''code'', ''sg_episode'', ''sg_sequence'']
                  (find_one engine ''Shot'' [(''id'', ''is'', entity_id (entity ev))]
                     [''id'', ''type'', ''code'', ''sg_episode'', ''sg_sequence''])] @
               (case find_one engine ''Shot'' [(''id'', ''is'', entity_id (entity ev))]
                       [''id'', ''type'', ''code'', ''sg_episode'', ''sg_sequence''] of
                  Inl e \<Rightarrow> []
                | Inr full_shot \<Rightarrow> [Log Debug (Full_shot full_shot)])))"
  by (simp add: resolve_shot_def io_defs fst_bind_io snd_bind_io split: sum.splits option.splits)

lemma snd_resolve_shot:
  "snd (resolve_shot env ev) =
     (case bootstrap_engine env ''tk-shell'' ''Shot'' (entity_id (entity ev)) of
        Inl e \<Rightarrow> Inl e
      | Inr engine \<Rightarrow>
          (case templates engine ''work_shot_area'' of
             None \<Rightarrow> Inl KeyError
           | Some t \<Rightarrow>
               (case find_one engine ''Shot'' [(''id'', ''is'', entity_id (entity ev))]
                       [''id'', ''type'', ''code'', ''sg_episode'', ''sg_sequence''] of
                  Inl e \<Rightarrow> Inl e
                | Inr full_shot \<Rightarrow> Inr (t, full_shot))))"
  by (simp add: resolve_shot_def io_defs fst_bind_io snd_bind_io split: sum.splits option.splits)

lemma fst_field_or_none:
  "fst (field_or_none w r) = (if r = Inl TypeError then [Log Warning (TypeError_from w)] else [])"
  by (simp add: field_or_none_def io_defs fst_bind_io snd_bind_io split: sum.splits exn.splits)

lemma snd_field_or_none:
  "snd (field_or_none w r) =
     (case r of Inr v \<Rightarrow> Inr v | Inl e \<Rightarrow> if e = TypeError then Inr PNone else Inl e)"
  by (simp add: field_or_none_def io_defs fst_bind_io snd_bind_io split: sum.splits exn.splits)

lemma fst_shot_fields_kinds:
  "commands (fst (shot_fields fs)) = [] \<and> captures (fst (shot_fields fs)) = [] \<and>
   lookups (fst (shot_fields fs)) = [] \<and> template_calls (fst (shot_fields fs)) = [] \<and>
   paths (fst (shot_fields fs)) = [] \<and> template_errors (fst (shot_fields fs)) = [] \<and>
   error_logs (fst (shot_fields fs)) = [] \<and> destroys (fst (shot_fields fs)) = 0 \<and>
   bootstraps (fst (shot_fields fs)) = 0"
  by (simp add: shot_fields_def io_defs fst_bind_io snd_bind_io proj_append fst_field_or_none
      split: sum.splits)

lemma fst_resolve_shot_kinds:
  "commands (fst (resolve_shot env ev)) = [] \<and> captures (fst (resolve_shot env ev)) = [] \<and>
   template_calls (fst (resolve_shot env ev)) = [] \<and>
   paths (fst (resolve_shot env ev)) = [] \<and> template_errors (fst (resolve_shot env ev)) = [] \<and>
   error_logs (fst (resolve_shot env ev)) = [] \<and> destroys (fst (resolve_shot env ev)) = 0"
  by (simp add: fst_resolve_shot split: sum.splits option.splits)

lemma resolve_shot_bootstraps:
  "bootstraps (fst (resolve_shot env ev)) =
     (case bootstrap_engine env ''tk-shell'' ''Shot'' (entity_id (entity ev)) of
        Inl e \<Rightarrow> 0 | Inr engine \<Rightarrow> 1)"
  by (simp add: fst_resolve_shot split: sum.splits option.splits)

lemma resolve_shot_lookups:
  "lookups (fst (resolve_shot env ev)) =
     (case bootstrap_engine env ''tk-shell'' ''Shot'' (entity_id (entity ev)) of
        Inl e \<Rightarrow> []
      | Inr engine \<Rightarrow>
          (case templates engine ''work_shot_area'' of
             None \<Rightarrow> []
           | Some t \<Rightarrow>
               [(''Shot'', [(''id'', ''is'', entity_id (entity ev))],
                 [''id'', ''type'', ''code'', ''sg_episode'', ''sg_sequence''])]))"
  by (simp add: fst_resolve_shot split: sum.splits option.splits)

lemma fst_compose_path:
  "fst (compose_path env ev t fm) =
     (case t fm of
        Inr p \<Rightarrow> [ApplyFields fm (Inr p), Log Debug (Rendered (''Full path: '' @ p))]
      | Inl e \<Rightarrow>
          (case e of
             TankError msg \<Rightarrow>
               [ApplyFields fm (Inl e),
                Log Error (Rendered
                  (''Unable to apply all required fields, saving event as '' @
                   (''shot_id-'' @ str_int (entity_id (entity ev)) @ ''-'' @
                    strftime (created_at ev) @ ''.pickle'') @
                   [CHR 0x0A] @ ''Exception message: '' @ msg)),
                Capture (''shot_id-'' @ str_int (entity_id (entity ev)) @ ''-'' @
                         strftime (created_at ev) @ ''.pickle'') ev
                  (write_pickle env (''shot_id-'' @ str_int (entity_id (entity ev)) @ ''-'' @
                         strftime (created_at ev) @ ''.pickle''))]
           | _ \<Rightarrow> [ApplyFields fm (Inl e)]))"
  by (simp add: compose_path_def capture_event_def io_defs fst_bind_io snd_bind_io
      split: sum.splits exn.splits option.splits)

lemma snd_compose_path:
  "snd (compose_path env ev t fm) =
     (case t fm of
        Inr p \<Rightarrow> Inr (Some p)
      | Inl e \<Rightarrow>
          (case e of
             TankError msg \<Rightarrow>
               (case write_pickle env (''shot_id-'' @ str_int (entity_id (entity ev)) @ ''-'' @
                         strftime (created_at ev) @ ''.pickle'') of
                  None \<Rightarrow> Inr None | Some e' \<Rightarrow> Inl e')
           | _ \<Rightarrow> Inl e))"
  by (simp add: compose_path_def capture_event_def io_defs fst_bind_io snd_bind_io
      split: sum.splits exn.splits option.splits)

lemma fst_compose_path_kinds:
  "commands (fst (compose_path env ev t fm)) = [] \<and>
   lookups (fst (compose_path env ev t fm)) = [] \<and>
   template_calls (fst (compose_path env ev t fm)) = [fm] \<and>
   destroys (fst (compose_path env ev t fm)) = 0 \<and>
   bootstraps (fst (compose_path env ev t fm)) = 0"
  by (simp add: fst_compose_path split: sum.splits exn.splits)

lemma fst_B:
  "fst (bootstrap_engine_to_shot_path env ev) =
     fst (resolve_shot env ev) @
     (case snd (resolve_shot env ev) of
        Inl e \<Rightarrow> []
      | Inr r \<Rightarrow>
          fst (shot_fields (snd r)) @
          (case snd (shot_fields (snd r)) of
             Inl e \<Rightarrow> []
           | Inr fm \<Rightarrow>
               fst (compose_path env ev (fst r) fm) @
               (case snd (compose_path env ev (fst r) fm) of
                  Inl e \<Rightarrow> [] | Inr result \<Rightarrow> [Destroy])))"
  by (simp add: bootstrap_engine_to_shot_path_def io_defs fst_bind_io snd_bind_io
      split: sum.splits prod.splits)

lemma snd_B:
  "snd (bootstrap_engine_to_shot_path env ev) =
     (case snd (resolve_shot env ev) of
        Inl e \<Rightarrow> Inl e
      | Inr r \<Rightarrow>
          (case snd (shot_fields (snd r)) of
             Inl e \<Rightarrow> Inl e
           | Inr fm \<Rightarrow> snd (compose_path env ev (fst r) fm)))"
  by (simp add: bootstrap_engine_to_shot_path_def io_defs fst_bind_io snd_bind_io
      split: sum.splits prod.splits)

lemma B_commands: "commands (fst (bootstrap_engine_to_shot_path env ev)) = []"
  by (simp add: fst_B proj_append fst_resolve_shot_kinds fst_shot_fields_kinds
        fst_compose_path_kinds split: sum.splits)

lemma B_destroys:
  "destroys (fst (bootstrap_engine_to_shot_path env ev)) =
     (case snd (bootstrap_engine_to_shot_path env ev) of Inl e \<Rightarrow> 0 | Inr r \<Rightarrow> 1)"
  by (simp add: fst_B snd_B proj_append fst_resolve_shot_kinds fst_shot_fields_kinds
        fst_compose_path_kinds split: sum.splits)

lemmas ex_defs = ex_event_def ex_config_def ex_shot_def ex_shot_linked_def ex_template_def
  ex_engine_def ex_env_def

lemmas run_defs = shothammer_def bootstrap_engine_to_shot_path_def resolve_shot_def
  shot_fields_def compose_path_def
  field_or_none_def episode_name_def capture_event_def add_tags_def remove_tags_def
  hs_keyword_add_def hs_keyword_delete_def run_and_log_def project_name_from_event_def
  get_project_id_def get_shot_code_def py_in_def truthy_def startswith_def
  return_io_def raise_io_def emit_def then_io_def call_io_def lift_io_def bind_io_def

lemma B_last:
  "snd (bootstrap_engine_to_shot_path env ev) = Inr r \<Longrightarrow>
     last (fst (bootstrap_engine_to_shot_path env ev)) = Destroy"
  by (auto simp: fst_B snd_B split: sum.splits)

lemma B_bootstraps:
  "snd (bootstrap_engine_to_shot_path env ev) = Inr r \<Longrightarrow>
     bootstraps (fst (bootstrap_engine_to_shot_path env ev)) = 1"
  by (simp add: fst_B snd_B proj_append resolve_shot_bootstraps snd_resolve_shot
        fst_shot_fields_kinds fst_compose_path_kinds split: sum.splits option.splits)

section \<open>C3: the engine is destroyed when path resolution returns\<close>

text \<open>
  Claim C3, as the code has it. Whenever \<open>bootstrap_engine_to_shot_path\<close> returns (with a
  path, or with \<open>None\<close> after a template error whose event was saved), the engine was
  bootstrapped once, destroyed once, and \<open>engine.destroy()\<close> is the last thing done. When
  an exception leaves the function, whatever raised it, the engine is not destroyed.
\<close>

theorem session_destroyed_when_resolution_returns:
  "(snd (bootstrap_engine_to_shot_path env ev) = Inr r \<longrightarrow>
      destroys (fst (bootstrap_engine_to_shot_path env ev)) = 1 \<and>
      bootstraps (fst (bootstrap_engine_to_shot_path env ev)) = 1 \<and>
      last (fst (bootstrap_engine_to_shot_path env ev)) = Destroy) \<and>
   (snd (bootstrap_engine_to_shot_path env ev) = Inl e \<longrightarrow>
      destroys (fst (bootstrap_engine_to_shot_path env ev)) = 0)"
  by (simp add: B_destroys B_last B_bootstraps)

text \<open>
  Both cases occur: the scenario's shot gives a path and one \<open>destroy\<close>; a missing record
  whose capture file cannot be written leaves with \<open>OSError\<close> and no \<open>destroy\<close>.
\<close>

theorem session_destroyed_witness:
  "snd (bootstrap_engine_to_shot_path (ex_env (Inr ex_shot) None) ex_event) =
     Inr (Some ''/proj/seq01/ep01/sh010'') \<and>
   destroys (fst (bootstrap_engine_to_shot_path (ex_env (Inr ex_shot) None) ex_event)) = 1 \<and>
   bootstraps (fst (bootstrap_engine_to_shot_path (ex_env (Inr ex_shot) None) ex_event)) = 1 \<and>
   last (fst (bootstrap_engine_to_shot_path (ex_env (Inr ex_shot) None) ex_event)) = Destroy \<and>
   snd (bootstrap_engine_to_shot_path (ex_env (Inr PNone) (Some OSError)) ex_event) =
     Inl OSError \<and>
   destroys (fst (bootstrap_engine_to_shot_path (ex_env (Inr PNone) (Some OSError)) ex_event)) = 0"
proof -
  have ok: "snd (bootstrap_engine_to_shot_path (ex_env (Inr ex_shot) None) ex_event) =
     Inr (Some ''/proj/seq01/ep01/sh010'')"
    by (simp add: ex_defs run_defs)
  have bad: "snd (bootstrap_engine_to_shot_path (ex_env (Inr PNone) (Some OSError)) ex_event) =
     Inl OSError"
    by (simp add: ex_defs run_defs)
  show ?thesis
    using ok bad
      session_destroyed_when_resolution_returns
        [of "ex_env (Inr ex_shot) None" ex_event "Some ''/proj/seq01/ep01/sh010''" OSError]
      session_destroyed_when_resolution_returns
        [of "ex_env (Inr PNone) (Some OSError)" ex_event None OSError]
    by simp
qed

text \<open>
  C3 as it is stated fails: when \<open>find_one\<close> raises, the engine has been bootstrapped and
  is never destroyed.
\<close>

theorem session_leaks_when_lookup_raises:
  "bootstraps (fst (bootstrap_engine_to_shot_path
      (ex_env (Inl (OtherError ''lookup failed'')) None) ex_event)) = 1 \<and>
   destroys (fst (bootstrap_engine_to_shot_path
      (ex_env (Inl (OtherError ''lookup failed'')) None) ex_event)) = 0 \<and>
   snd (bootstrap_engine_to_shot_path
      (ex_env (Inl (OtherError ''lookup failed'')) None) ex_event) =
     Inl (OtherError ''lookup failed'')"
  by (simp add: ex_defs run_defs)

section \<open>Keyword commands\<close>

lemma hs_keyword_add_commands:
  "commands (fst (hs_keyword_add cfg env p k r)) =
     (if startswith k (SGHS_TAG_NAMESPACE cfg)
      then [if r then ''hs keyword add -r '' @ k @ '' '' @ p else ''hs keyword add '' @ k @ '' '' @ p]
      else [])"
  by (simp add: hs_keyword_add_def run_and_log_def io_defs fst_bind_io snd_bind_io)

lemma hs_keyword_add_returns: "snd (hs_keyword_add cfg env p k r) = Inr ()"
  by (simp add: hs_keyword_add_def run_and_log_def io_defs fst_bind_io snd_bind_io)

lemma hs_keyword_delete_commands:
  "commands (fst (hs_keyword_delete cfg env p k r)) =
     (if startswith k (SGHS_TAG_NAMESPACE cfg)
      then [if r then ''hs keyword delete -r '' @ k @ '' '' @ p
            else ''hs keyword delete '' @ k @ '' '' @ p]
      else [])"
  by (simp add: hs_keyword_delete_def run_and_log_def io_defs fst_bind_io snd_bind_io)

lemma hs_keyword_delete_returns: "snd (hs_keyword_delete cfg env p k r) = Inr ()"
  by (simp add: hs_keyword_delete_def run_and_log_def io_defs fst_bind_io snd_bind_io)

lemma hs_keyword_add_kinds:
  "captures (fst (hs_keyword_add cfg env p k r)) = [] \<and>
   lookups (fst (hs_keyword_add cfg env p k r)) = [] \<and>
   template_calls (fst (hs_keyword_add cfg env p k r)) = [] \<and>
   paths (fst (hs_keyword_add cfg env p k r)) = [] \<and>
   template_errors (fst (hs_keyword_add cfg env p k r)) = [] \<and>
   error_logs (fst (hs_keyword_add cfg env p k r)) = []"
  by (simp add: hs_keyword_add_def run_and_log_def io_defs fst_bind_io snd_bind_io)

lemma hs_keyword_delete_kinds:
  "captures (fst (hs_keyword_delete cfg env p k r)) = [] \<and>
   lookups (fst (hs_keyword_delete cfg env p k r)) = [] \<and>
   template_calls (fst (hs_keyword_delete cfg env p k r)) = [] \<and>
   paths (fst (hs_keyword_delete cfg env p k r)) = [] \<and>
   template_errors (fst (hs_keyword_delete cfg env p k r)) = [] \<and>
   error_logs (fst (hs_keyword_delete cfg env p k r)) = []"
  by (simp add: hs_keyword_delete_def run_and_log_def io_defs fst_bind_io snd_bind_io)

lemma add_tags_loop_returns: "snd (add_tags_loop cfg env p tags) = Inr ()"
  by (induction tags) (simp_all add: io_defs snd_bind_io hs_keyword_add_returns)

lemma remove_tags_loop_returns: "snd (remove_tags_loop cfg env p tags) = Inr ()"
  by (induction tags) (simp_all add: io_defs snd_bind_io hs_keyword_delete_returns)

lemma add_tags_loop_commands:
  "commands (fst (add_tags_loop cfg env p tags)) =
     map (\<lambda>k. ''hs keyword add '' @ k @ '' '' @ p)
       (filter (\<lambda>k. startswith k (SGHS_TAG_NAMESPACE cfg)) tags)"
  by (induction tags)
     (simp_all add: io_defs fst_bind_io snd_bind_io commands_append
        hs_keyword_add_returns hs_keyword_add_commands)

lemma remove_tags_loop_commands:
  "commands (fst (remove_tags_loop cfg env p tags)) =
     map (\<lambda>k. ''hs keyword delete '' @ k @ '' '' @ p)
       (filter (\<lambda>k. startswith k (SGHS_TAG_NAMESPACE cfg)) tags)"
  by (induction tags)
     (simp_all add: io_defs fst_bind_io snd_bind_io commands_append
        hs_keyword_delete_returns hs_keyword_delete_commands)

lemma add_tags_loop_kinds:
  "captures (fst (add_tags_loop cfg env p tags)) = [] \<and>
   lookups (fst (add_tags_loop cfg env p tags)) = [] \<and>
   template_calls (fst (add_tags_loop cfg env p tags)) = [] \<and>
   paths (fst (add_tags_loop cfg env p tags)) = [] \<and>
   template_errors (fst (add_tags_loop cfg env p tags)) = [] \<and>
   error_logs (fst (add_tags_loop cfg env p tags)) = []"
  by (induction tags)
     (simp_all add: io_defs fst_bind_io snd_bind_io proj_append
        hs_keyword_add_returns hs_keyword_add_kinds)

lemma remove_tags_loop_kinds:
  "captures (fst (remove_tags_loop cfg env p tags)) = [] \<and>
   lookups (fst (remove_tags_loop cfg env p tags)) = [] \<and>
   template_calls (fst (remove_tags_loop cfg env p tags)) = [] \<and>
   paths (fst (remove_tags_loop cfg env p tags)) = [] \<and>
   template_errors (fst (remove_tags_loop cfg env p tags)) = [] \<and>
   error_logs (fst (remove_tags_loop cfg env p tags)) = []"
  by (induction tags)
     (simp_all add: io_defs fst_bind_io snd_bind_io proj_append
        hs_keyword_delete_returns hs_keyword_delete_kinds)

lemma add_tags_commands:
  "commands (fst (add_tags cfg env ev p)) =
     map (\<lambda>k. ''hs keyword add '' @ k @ '' '' @ p)
       (filter (\<lambda>k. startswith k (SGHS_TAG_NAMESPACE cfg)) (map tag_name (added (meta ev))))"
  by (simp add: add_tags_def io_defs fst_bind_io snd_bind_io add_tags_loop_commands)

lemma remove_tags_commands:
  "commands (fst (remove_tags cfg env ev p)) =
     map (\<lambda>k. ''hs keyword delete '' @ k @ '' '' @ p)
       (filter (\<lambda>k. startswith k (SGHS_TAG_NAMESPACE cfg)) (map tag_name (removed (meta ev))))"
  by (simp add: remove_tags_def remove_tags_loop_commands)

lemma add_tags_returns: "snd (add_tags cfg env ev p) = Inr ()"
  by (simp add: add_tags_def io_defs snd_bind_io add_tags_loop_returns)

lemma remove_tags_returns: "snd (remove_tags cfg env ev p) = Inr ()"
  by (simp add: remove_tags_def remove_tags_loop_returns)

lemma add_tags_kinds:
  "captures (fst (add_tags cfg env ev p)) = [] \<and>
   lookups (fst (add_tags cfg env ev p)) = [] \<and>
   template_calls (fst (add_tags cfg env ev p)) = [] \<and>
   paths (fst (add_tags cfg env ev p)) = [] \<and>
   template_errors (fst (add_tags cfg env ev p)) = [] \<and>
   error_logs (fst (add_tags cfg env ev p)) = []"
  by (simp add: add_tags_def io_defs fst_bind_io snd_bind_io add_tags_loop_kinds)

lemma remove_tags_kinds:
  "captures (fst (remove_tags cfg env ev p)) = [] \<and>
   lookups (fst (remove_tags cfg env ev p)) = [] \<and>
   template_calls (fst (remove_tags cfg env ev p)) = [] \<and>
   paths (fst (remove_tags cfg env ev p)) = [] \<and>
   template_errors (fst (remove_tags cfg env ev p)) = [] \<and>
   error_logs (fst (remove_tags cfg env ev p)) = []"
  by (simp add: remove_tags_def remove_tags_loop_kinds)

section \<open>The callback, case by case\<close>

lemma shothammer_no_project:
  "project ev = None \<Longrightarrow>
     shothammer cfg env ev =
       (case fmt_i (get_shot_code ev) of
          Inl e \<Rightarrow> ([Pprint ev, Log Debug Pprint_result], Inl e)
        | Inr code \<Rightarrow>
            ([Pprint ev, Log Debug Pprint_result,
              Log Warning (Rendered (''Project is none in event from shot '' @ code))], Inr ()))"
  by (simp add: shothammer_def project_name_from_event_def io_defs bind_io_def split: sum.splits)

lemma fst_shothammer:
  "project ev = Some pr \<Longrightarrow>
     fst (shothammer cfg env ev) =
       [Pprint ev, Log Debug Pprint_result, Log Debug (Rendered (project_name pr))] @
       (if CAPTURE_LAST_EVENT cfg
        then [Capture (LAST_EVENT_FILE cfg) ev (write_pickle env (LAST_EVENT_FILE cfg))]
        else []) @
       (if CAPTURE_LAST_EVENT cfg \<and> write_pickle env (LAST_EVENT_FILE cfg) \<noteq> None then []
        else (case SGHS_PROJECTS cfg of
                None \<Rightarrow> []
              | Some ps \<Rightarrow>
                  if project_id pr \<in> set ps
                  then fst (bootstrap_engine_to_shot_path env ev) @
                       (case snd (bootstrap_engine_to_shot_path env ev) of
                          Inl e \<Rightarrow> []
                        | Inr path \<Rightarrow>
                            if truthy path
                            then fst (add_tags cfg env ev (the path)) @
                                 fst (remove_tags cfg env ev (the path))
                            else [])
                  else []))"
  by (simp add: shothammer_def project_name_from_event_def get_project_id_def py_in_def
        capture_event_def io_defs fst_bind_io snd_bind_io add_tags_returns truthy_def
      split: sum.splits option.splits)

lemma snd_shothammer:
  "project ev = Some pr \<Longrightarrow>
     snd (shothammer cfg env ev) =
       (case (if CAPTURE_LAST_EVENT cfg then write_pickle env (LAST_EVENT_FILE cfg) else None) of
          Some e \<Rightarrow> Inl e
        | None \<Rightarrow>
            (case SGHS_PROJECTS cfg of
               None \<Rightarrow> Inl TypeError
             | Some ps \<Rightarrow>
                 if project_id pr \<in> set ps
                 then (case snd (bootstrap_engine_to_shot_path env ev) of
                         Inl e \<Rightarrow> Inl e | Inr path \<Rightarrow> Inr ())
                 else Inr ()))"
  by (simp add: shothammer_def project_name_from_event_def get_project_id_def py_in_def
        capture_event_def io_defs fst_bind_io snd_bind_io add_tags_returns remove_tags_returns
      split: sum.splits option.splits)

lemmas ex_event_defs = ex_event_both_def ex_event_new_entity_def ex_event_no_project_def

lemma shothammer_commands:
  "commands (fst (shothammer cfg env ev)) = [] \<or>
   (\<exists>p. commands (fst (shothammer cfg env ev)) =
      commands (fst (add_tags cfg env ev p)) @ commands (fst (remove_tags cfg env ev p)))"
proof (cases "project ev")
  case None
  then show ?thesis
    by (simp add: shothammer_no_project split: sum.splits)
next
  case (Some pr)
  then show ?thesis
    by (auto simp: fst_shothammer proj_append B_commands split: option.splits sum.splits)
qed

lemma list_all_map_filter:
  "(\<And>k. Q k \<Longrightarrow> P (f k)) \<Longrightarrow> list_all P (map f (filter Q xs))"
  by (induction xs) auto

section \<open>C8: only keywords of the namespace become commands\<close>

text \<open>
  Claim C8. \<open>hs_keyword_add\<close> and \<open>hs_keyword_delete\<close> run no command for a keyword that
  does not start with \<open>SGHS_TAG_NAMESPACE\<close>, and exactly one command for a keyword that
  does; either way they return without an error. So every command the callback runs is a
  keyword command whose keyword starts with the prefix.
\<close>

theorem namespace_filter:
  "commands (fst (hs_keyword_add cfg env path keyword recursive)) =
     (if startswith keyword (SGHS_TAG_NAMESPACE cfg)
      then [if recursive then ''hs keyword add -r '' @ keyword @ '' '' @ path
            else ''hs keyword add '' @ keyword @ '' '' @ path]
      else []) \<and>
   snd (hs_keyword_add cfg env path keyword recursive) = Inr () \<and>
   commands (fst (hs_keyword_delete cfg env path keyword recursive)) =
     (if startswith keyword (SGHS_TAG_NAMESPACE cfg)
      then [if recursive then ''hs keyword delete -r '' @ keyword @ '' '' @ path
            else ''hs keyword delete '' @ keyword @ '' '' @ path]
      else []) \<and>
   snd (hs_keyword_delete cfg env path keyword recursive) = Inr () \<and>
   list_all
     (\<lambda>c. \<exists>k p. startswith k (SGHS_TAG_NAMESPACE cfg) \<and>
             (c = ''hs keyword add '' @ k @ '' '' @ p \<or>
              c = ''hs keyword delete '' @ k @ '' '' @ p))
     (commands (fst (shothammer cfg env ev)))"
proof -
  let ?P = "\<lambda>c. \<exists>k p. startswith k (SGHS_TAG_NAMESPACE cfg) \<and>
             (c = ''hs keyword add '' @ k @ '' '' @ p \<or>
              c = ''hs keyword delete '' @ k @ '' '' @ p)"
  have adds: "list_all ?P (commands (fst (add_tags cfg env ev p)))" for p
    unfolding add_tags_commands by (rule list_all_map_filter) blast
  have dels: "list_all ?P (commands (fst (remove_tags cfg env ev p)))" for p
    unfolding remove_tags_commands by (rule list_all_map_filter) blast
  have "list_all ?P (commands (fst (shothammer cfg env ev)))"
    using shothammer_commands [of cfg env ev] adds dels
    by (elim disjE exE) simp_all
  then show ?thesis
    by (simp add: hs_keyword_add_commands hs_keyword_add_returns
          hs_keyword_delete_commands hs_keyword_delete_returns)
qed

text \<open>The two tags of the specification's example.\<close>

lemma namespace_filter_examples:
  "commands (fst (hs_keyword_add ex_config env ''/proj/seq01/ep01/sh010'' ''other:foo'' False)) = []"
  "commands (fst (hs_keyword_add ex_config env ''/proj/seq01/ep01/sh010'' ''sghs:hero'' False)) =
     [''hs keyword add sghs:hero /proj/seq01/ep01/sh010'']"
  by (simp_all add: hs_keyword_add_commands startswith_def ex_config_def)

section \<open>C7: additions come before removals\<close>

lemma B_paths:
  "paths (fst (bootstrap_engine_to_shot_path env ev)) =
     (case snd (bootstrap_engine_to_shot_path env ev) of
        Inl e \<Rightarrow> [] | Inr None \<Rightarrow> [] | Inr (Some p) \<Rightarrow> [p])"
  by (simp add: fst_B snd_B proj_append fst_resolve_shot_kinds fst_shot_fields_kinds
        fst_compose_path snd_compose_path split: sum.splits exn.splits option.splits)

lemma shothammer_resolved:
  assumes "p \<in> set (paths (fst (shothammer cfg env ev)))"
  shows "\<exists>pr. project ev = Some pr \<and>
           snd (bootstrap_engine_to_shot_path env ev) = Inr (Some p) \<and>
           fst (shothammer cfg env ev) =
             [Pprint ev, Log Debug Pprint_result, Log Debug (Rendered (project_name pr))] @
             (if CAPTURE_LAST_EVENT cfg
              then [Capture (LAST_EVENT_FILE cfg) ev None] else []) @
             fst (bootstrap_engine_to_shot_path env ev) @
             (if p \<noteq> [] then fst (add_tags cfg env ev p) @ fst (remove_tags cfg env ev p)
              else [])"
proof (cases "project ev")
  case None
  with assms show ?thesis
    by (simp add: shothammer_no_project split: sum.splits)
next
  case (Some pr)
  with assms show ?thesis
    by (auto simp: fst_shothammer proj_append B_paths add_tags_kinds remove_tags_kinds truthy_def
          split: option.splits sum.splits if_splits)
qed

text \<open>
  Claim C7. When the template returned the path \<open>p\<close> during the callback and \<open>p\<close> is a
  real path (not the empty string, which \<open>if path:\<close> takes for no path), the commands run
  are: one non-recursive keyword-add for each added tag of the namespace, in the event's
  order, duplicates included, and after all of them one non-recursive keyword-delete for
  each removed tag of the namespace.
\<close>

theorem additions_before_removals:
  assumes "p \<in> set (paths (fst (shothammer cfg env ev)))" and "p \<noteq> []"
  shows "commands (fst (shothammer cfg env ev)) =
           map (\<lambda>k. ''hs keyword add '' @ k @ '' '' @ p)
             (filter (\<lambda>k. startswith k (SGHS_TAG_NAMESPACE cfg))
                (map tag_name (added (meta ev)))) @
           map (\<lambda>k. ''hs keyword delete '' @ k @ '' '' @ p)
             (filter (\<lambda>k. startswith k (SGHS_TAG_NAMESPACE cfg))
                (map tag_name (removed (meta ev))))"
proof -
  from shothammer_resolved [OF assms(1)] show ?thesis
    using assms(2)
    by (auto simp: proj_append B_commands add_tags_commands remove_tags_commands)
qed

text \<open>
  A tag in both lists: exactly one add command, then exactly one delete command.
\<close>

theorem additions_before_removals_witness:
  "''/proj/seq01/ep01/sh010'' \<in>
     set (paths (fst (shothammer ex_config (ex_env (Inr ex_shot) None) ex_event_both))) \<and>
   commands (fst (shothammer ex_config (ex_env (Inr ex_shot) None) ex_event_both)) =
     [''hs keyword add sghs:x /proj/seq01/ep01/sh010'',
      ''hs keyword delete sghs:x /proj/seq01/ep01/sh010'']"
proof -
  have h: "''/proj/seq01/ep01/sh010'' \<in>
     set (paths (fst (shothammer ex_config (ex_env (Inr ex_shot) None) ex_event_both)))"
    by (simp add: ex_defs ex_event_defs run_defs)
  have ne: "''/proj/seq01/ep01/sh010'' \<noteq> []"
    by simp
  show ?thesis
    using h additions_before_removals [OF h ne]
    by (simp add: ex_defs ex_event_defs startswith_def)
qed

section \<open>C9 and C5: the lookup and the fields given to the template\<close>

lemma B_lookups:
  "lookups (fst (bootstrap_engine_to_shot_path env ev)) = lookups (fst (resolve_shot env ev))"
  by (simp add: fst_B proj_append fst_shot_fields_kinds fst_compose_path_kinds
      split: sum.splits)

lemma B_template_calls:
  "template_calls (fst (bootstrap_engine_to_shot_path env ev)) =
     (case snd (resolve_shot env ev) of
        Inl e \<Rightarrow> []
      | Inr r \<Rightarrow> (case snd (shot_fields (snd r)) of Inl e \<Rightarrow> [] | Inr fm \<Rightarrow> [fm]))"
  by (simp add: fst_B proj_append fst_resolve_shot_kinds fst_shot_fields_kinds
        fst_compose_path_kinds split: sum.splits)

lemma shot_fields_None:
  "shot_fields PNone =
     ([Log Warning (TypeError_from ''Shot''), Log Warning (TypeError_from ''Sequence''),
       Log Warning (TypeError_from ''Episode'')],
      Inr [(''Shot'', PNone), (''Sequence'', PNone), (''Episode'', PNone)])"
  by (simp add: shot_fields_def field_or_none_def episode_name_def io_defs bind_io_def)

lemma shot_fields_record:
  assumes "map_of d ''code'' = Some c" and "map_of d ''sg_sequence'' = Some s"
    and "map_of d ''sg_episode'' = Some (PDict ep)" and "map_of ep ''name'' = Some n"
  shows "shot_fields (PDict d) = ([], Inr [(''Shot'', c), (''Sequence'', s), (''Episode'', n)])"
  using assms
  by (simp add: shot_fields_def field_or_none_def episode_name_def io_defs bind_io_def)

lemma shothammer_in_scope:
  assumes "project ev = Some pr" and "SGHS_PROJECTS cfg = Some ps" and "project_id pr \<in> set ps"
    and "\<not> CAPTURE_LAST_EVENT cfg \<or> write_pickle env (LAST_EVENT_FILE cfg) = None"
  shows "lookups (fst (shothammer cfg env ev)) =
           lookups (fst (bootstrap_engine_to_shot_path env ev))"
    and "template_calls (fst (shothammer cfg env ev)) =
           template_calls (fst (bootstrap_engine_to_shot_path env ev))"
  using assms
  by (auto simp: fst_shothammer proj_append add_tags_kinds remove_tags_kinds
      split: sum.splits)

text \<open>
  Claim C9. When the engine is bootstrapped, the template is there and \<open>find_one\<close> returns
  \<open>None\<close>, reading the three fields raises nothing out of the function: each
  \<open>TypeError\<close> is caught and logged as a warning, the three fields are \<open>None\<close>, and the
  template is called once with this all-\<open>None\<close> field map; what path resolution returns
  is what the template call and its handler give.
\<close>

theorem missing_record_flows_into_composition:
  assumes "bootstrap_engine env ''tk-shell'' ''Shot'' (entity_id (entity ev)) = Inr engine"
    and "templates engine ''work_shot_area'' = Some t"
    and "find_one engine ''Shot'' [(''id'', ''is'', entity_id (entity ev))]
           [''id'', ''type'', ''code'', ''sg_episode'', ''sg_sequence''] = Inr PNone"
  shows "shot_fields PNone =
           ([Log Warning (TypeError_from ''Shot''), Log Warning (TypeError_from ''Sequence''),
             Log Warning (TypeError_from ''Episode'')],
            Inr [(''Shot'', PNone), (''Sequence'', PNone), (''Episode'', PNone)]) \<and>
         template_calls (fst (bootstrap_engine_to_shot_path env ev)) =
           [[(''Shot'', PNone), (''Sequence'', PNone), (''Episode'', PNone)]] \<and>
         snd (bootstrap_engine_to_shot_path env ev) =
           snd (compose_path env ev t
                  [(''Shot'', PNone), (''Sequence'', PNone), (''Episode'', PNone)])"
  using assms
  by (simp add: B_template_calls snd_B snd_resolve_shot shot_fields_None)

text \<open>
  With the template of the scenario, which needs its fields, the missing record ends in a
  handled template error: one template call, and \<open>None\<close> returned.
\<close>

theorem missing_record_witness:
  "bootstrap_engine (ex_env (Inr PNone) None) ''tk-shell'' ''Shot'' (entity_id (entity ex_event)) =
     Inr (ex_engine (Inr PNone)) \<and>
   templates (ex_engine (Inr PNone)) ''work_shot_area'' = Some ex_template \<and>
   find_one (ex_engine (Inr PNone)) ''Shot'' [(''id'', ''is'', entity_id (entity ex_event))]
     [''id'', ''type'', ''code'', ''sg_episode'', ''sg_sequence''] = Inr PNone \<and>
   template_calls (fst (bootstrap_engine_to_shot_path (ex_env (Inr PNone) None) ex_event)) =
     [[(''Shot'', PNone), (''Sequence'', PNone), (''Episode'', PNone)]] \<and>
   snd (bootstrap_engine_to_shot_path (ex_env (Inr PNone) None) ex_event) = Inr None"
proof -
  have b: "bootstrap_engine (ex_env (Inr PNone) None) ''tk-shell'' ''Shot''
             (entity_id (entity ex_event)) = Inr (ex_engine (Inr PNone))"
    by (simp add: ex_env_def)
  have t: "templates (ex_engine (Inr PNone)) ''work_shot_area'' = Some ex_template"
    by (simp add: ex_engine_def)
  have f: "find_one (ex_engine (Inr PNone)) ''Shot'' [(''id'', ''is'', entity_id (entity ex_event))]
     [''id'', ''type'', ''code'', ''sg_episode'', ''sg_sequence''] = Inr PNone"
    by (simp add: ex_engine_def)
  have c: "snd (compose_path (ex_env (Inr PNone) None) ex_event ex_template
                  [(''Shot'', PNone), (''Sequence'', PNone), (''Episode'', PNone)]) = Inr None"
    by (simp add: snd_compose_path ex_template_def ex_env_def)
  show ?thesis
    using b t f c missing_record_flows_into_composition [OF b t f]
    by simp
qed

text \<open>
  Claim C5, as the code has it. For an event of an allowed project (the last-event capture,
  when it is on, having been written), once the engine is bootstrapped and has the
  template there is exactly one lookup: \<open>find_one("Shot", [["id", "is", shot_id]],
  ["id", "type", "code", "sg_episode", "sg_sequence"])\<close>. When it returns a record, the
  template is called once, with \<open>Shot\<close> the record's \<open>code\<close>, \<open>Episode\<close> the \<open>name\<close> of the
  record's \<open>sg_episode\<close>, and \<open>Sequence\<close> the record's \<open>sg_sequence\<close> value as it is, not
  a name taken out of it.
\<close>

theorem one_lookup_and_field_map:
  assumes "project ev = Some pr" and "SGHS_PROJECTS cfg = Some ps" and "project_id pr \<in> set ps"
    and "\<not> CAPTURE_LAST_EVENT cfg \<or> write_pickle env (LAST_EVENT_FILE cfg) = None"
    and "bootstrap_engine env ''tk-shell'' ''Shot'' (entity_id (entity ev)) = Inr engine"
    and "templates engine ''work_shot_area'' = Some t"
  shows "lookups (fst (shothammer cfg env ev)) =
           [(''Shot'', [(''id'', ''is'', entity_id (entity ev))],
             [''id'', ''type'', ''code'', ''sg_episode'', ''sg_sequence''])] \<and>
         (find_one engine ''Shot'' [(''id'', ''is'', entity_id (entity ev))]
            [''id'', ''type'', ''code'', ''sg_episode'', ''sg_sequence''] = Inr (PDict d) \<and>
          map_of d ''code'' = Some c \<and> map_of d ''sg_sequence'' = Some s \<and>
          map_of d ''sg_episode'' = Some (PDict ep) \<and> map_of ep ''name'' = Some n \<longrightarrow>
          template_calls (fst (shothammer cfg env ev)) =
            [[(''Shot'', c), (''Sequence'', s), (''Episode'', n)]])"
  using assms
  by (simp add: shothammer_in_scope B_lookups resolve_shot_lookups B_template_calls
        snd_resolve_shot shot_fields_record)

theorem one_lookup_and_field_map_witness:
  "lookups (fst (shothammer ex_config (ex_env (Inr ex_shot) None) ex_event)) =
     [(''Shot'', [(''id'', ''is'', 9502)],
       [''id'', ''type'', ''code'', ''sg_episode'', ''sg_sequence''])] \<and>
   template_calls (fst (shothammer ex_config (ex_env (Inr ex_shot) None) ex_event)) =
     [[(''Shot'', PStr ''sh010''), (''Sequence'', PStr ''seq01''), (''Episode'', PStr ''ep01'')]]"
  using one_lookup_and_field_map
    [of ex_event "\<lparr>project_id = 5, project_name = ''proj''\<rparr>" ex_config "[5]"
        "ex_env (Inr ex_shot) None" "ex_engine (Inr ex_shot)" ex_template
        "[(''type'', PStr ''Shot''), (''id'', PInt 9502), (''code'', PStr ''sh010''),
          (''sg_episode'',
             PDict [(''type'', PStr ''Episode''), (''id'', PInt 4), (''name'', PStr ''ep01'')]),
          (''sg_sequence'', PStr ''seq01'')]"
        "PStr ''sh010''" "PStr ''seq01''"
        "[(''type'', PStr ''Episode''), (''id'', PInt 4), (''name'', PStr ''ep01'')]"
        "PStr ''ep01''"]
  by (simp add: ex_defs)

text \<open>
  C5 as it is stated fails for a record whose sequence is a link to a Sequence entity,
  as its episode is: the sequence's name is \<open>seq01\<close>, and the template is given the whole
  link.
\<close>

theorem sequence_passed_whole:
  "py_getitem ex_shot_linked ''sg_sequence'' =
     Inr (PDict [(''type'', PStr ''Sequence''), (''id'', PInt 3), (''name'', PStr ''seq01'')]) \<and>
   py_getitem (PDict [(''type'', PStr ''Sequence''), (''id'', PInt 3), (''name'', PStr ''seq01'')])
     ''name'' = Inr (PStr ''seq01'') \<and>
   template_calls (fst (shothammer ex_config (ex_env (Inr ex_shot_linked) None) ex_event)) =
     [[(''Shot'', PStr ''sh010''),
       (''Sequence'',
          PDict [(''type'', PStr ''Sequence''), (''id'', PInt 3), (''name'', PStr ''seq01'')]),
       (''Episode'', PStr ''ep01'')]] \<and>
   template_calls (fst (shothammer ex_config (ex_env (Inr ex_shot_linked) None) ex_event)) \<noteq>
     [[(''Shot'', PStr ''sh010''), (''Sequence'', PStr ''seq01''), (''Episode'', PStr ''ep01'')]]"
  by (simp add: ex_defs run_defs)

section \<open>C1: the unset allow-list\<close>

text \<open>
  Claim C1 against the code. An empty \<open>SGHS_PROJECTS\<close> option is loaded as \<open>None\<close>, and
  line 98 then evaluates \<open>get_project_id(event) in None\<close>: for every event that has a
  project the callback ends with a \<open>TypeError\<close> (or, with the last-event capture on and
  failing, with that failure before it), having looked nothing up and run no command.
\<close>

theorem unset_allow_list_raises:
  assumes "SGHS_PROJECTS cfg = None" and "project ev = Some pr"
  shows "load_SGHS_PROJECTS py_int [] = None \<and>
         snd (shothammer cfg env ev) =
           Inl (case (if CAPTURE_LAST_EVENT cfg then write_pickle env (LAST_EVENT_FILE cfg)
                      else None) of
                  None \<Rightarrow> TypeError | Some e \<Rightarrow> e) \<and>
         commands (fst (shothammer cfg env ev)) = [] \<and>
         lookups (fst (shothammer cfg env ev)) = [] \<and>
         template_calls (fst (shothammer cfg env ev)) = []"
  using assms
  by (auto simp: load_SGHS_PROJECTS_def fst_shothammer snd_shothammer split: option.splits)

theorem unset_allow_list_witness:
  "SGHS_PROJECTS (ex_config\<lparr>SGHS_PROJECTS := None\<rparr>) = None \<and>
   project ex_event = Some \<lparr>project_id = 5, project_name = ''proj''\<rparr> \<and>
   snd (shothammer (ex_config\<lparr>SGHS_PROJECTS := None\<rparr>) (ex_env (Inr ex_shot) None) ex_event) =
     Inl TypeError \<and>
   commands (fst (shothammer (ex_config\<lparr>SGHS_PROJECTS := None\<rparr>)
     (ex_env (Inr ex_shot) None) ex_event)) = []"
proof -
  have c: "SGHS_PROJECTS (ex_config\<lparr>SGHS_PROJECTS := None\<rparr>) = None"
    by simp
  have p: "project ex_event = Some \<lparr>project_id = 5, project_name = ''proj''\<rparr>"
    by (simp add: ex_event_def)
  show ?thesis
    using c p unset_allow_list_raises [OF c p, of "\<lambda>s. 0" "ex_env (Inr ex_shot) None"]
    by (simp add: ex_config_def)
qed

section \<open>C4: an event without a project\<close>

text \<open>
  Claim C4 against the code. For an event whose project is \<open>None\<close> and whose shot code is a
  string, building the warning with \<open>"%i" % get_shot_code(event)\<close> raises a \<open>TypeError\<close>
  inside the \<open>except\<close> block: nothing is logged after the two debug lines, and the
  exception leaves the callback. No command is run.
\<close>

theorem no_project_raises:
  assumes "project ev = None" and "entity_name (entity ev) = PStr s"
  shows "shothammer cfg env ev = ([Pprint ev, Log Debug Pprint_result], Inl TypeError)"
  using assms
  by (simp add: shothammer_no_project get_shot_code_def)

theorem no_project_raises_witness:
  "project ex_event_no_project = None \<and>
   entity_name (entity ex_event_no_project) = PStr ''ep01_seq01_sh010'' \<and>
   shothammer ex_config (ex_env (Inr ex_shot) None) ex_event_no_project =
     ([Pprint ex_event_no_project, Log Debug Pprint_result], Inl TypeError)"
proof -
  have p: "project ex_event_no_project = None"
    by (simp add: ex_event_no_project_def)
  have n: "entity_name (entity ex_event_no_project) = PStr ''ep01_seq01_sh010''"
    by (simp add: ex_event_no_project_def ex_event_def)
  show ?thesis
    using p n no_project_raises [OF p n]
    by simp
qed

section \<open>C6: a template error\<close>

lemma B_template_error:
  assumes "msg \<in> set (template_errors (fst (bootstrap_engine_to_shot_path env ev)))"
  shows "captures (fst (bootstrap_engine_to_shot_path env ev)) =
           [''shot_id-'' @ str_int (entity_id (entity ev)) @ ''-'' @
            strftime (created_at ev) @ ''.pickle''] \<and>
         error_logs (fst (bootstrap_engine_to_shot_path env ev)) =
           [''Unable to apply all required fields, saving event as '' @
            (''shot_id-'' @ str_int (entity_id (entity ev)) @ ''-'' @
             strftime (created_at ev) @ ''.pickle'') @
            [CHR 0x0A] @ ''Exception message: '' @ msg] \<and>
         snd (bootstrap_engine_to_shot_path env ev) =
           (case write_pickle env (''shot_id-'' @ str_int (entity_id (entity ev)) @ ''-'' @
                   strftime (created_at ev) @ ''.pickle'') of
              None \<Rightarrow> Inr None | Some e \<Rightarrow> Inl e)"
  using assms
  by (auto simp: fst_B snd_B proj_append fst_resolve_shot_kinds fst_shot_fields_kinds
        fst_compose_path snd_compose_path
      split: sum.splits exn.splits option.splits)

lemma shothammer_template_error:
  assumes "msg \<in> set (template_errors (fst (shothammer cfg env ev)))"
  shows "msg \<in> set (template_errors (fst (bootstrap_engine_to_shot_path env ev))) \<and>
           fst (shothammer cfg env ev) =
             [Pprint ev, Log Debug Pprint_result,
              Log Debug (Rendered (project_name (the (project ev))))] @
             (if CAPTURE_LAST_EVENT cfg
              then [Capture (LAST_EVENT_FILE cfg) ev None] else []) @
             fst (bootstrap_engine_to_shot_path env ev) \<and>
           snd (shothammer cfg env ev) =
             (case snd (bootstrap_engine_to_shot_path env ev) of
                Inl e \<Rightarrow> Inl e | Inr path \<Rightarrow> Inr ())"
proof (cases "project ev")
  case None
  with assms show ?thesis
    by (simp add: shothammer_no_project split: sum.splits)
next
  case (Some pr)
  have tags: "template_errors (fst (add_tags cfg env ev p)) = []"
    "template_errors (fst (remove_tags cfg env ev p)) = []" for p
    by (simp_all add: add_tags_kinds remove_tags_kinds)
  have B: "msg \<in> set (template_errors (fst (bootstrap_engine_to_shot_path env ev)))"
    using assms Some
    by (auto simp: fst_shothammer proj_append tags split: option.splits sum.splits if_splits)
  from B_template_error [OF B]
  have none: "snd (bootstrap_engine_to_shot_path env ev) = Inr None \<or>
              (\<exists>e. snd (bootstrap_engine_to_shot_path env ev) = Inl e)"
    by (auto split: option.splits)
  show ?thesis
    using assms Some B none
    by (auto simp: fst_shothammer snd_shothammer proj_append tags truthy_def
          split: option.splits sum.splits if_splits)
qed

text \<open>
  Claim C6, as the code has it. When the template raised an error with message \<open>msg\<close>
  during the callback, the event is captured once under
  \<open>shot_id-<id>-<YYYY-MM-DD_HH-MM-SS>.pickle\<close> (after the last-event capture, if that is on),
  the one error-level log line carries this file name and \<open>msg\<close>, and no command is run.
  The template error itself never reaches the caller; the callback returns normally when
  the capture file was written, and the failure to write it is what reaches the caller
  otherwise.
\<close>

theorem template_error_is_captured:
  assumes "msg \<in> set (template_errors (fst (shothammer cfg env ev)))"
  shows "captures (fst (shothammer cfg env ev)) =
           (if CAPTURE_LAST_EVENT cfg then [LAST_EVENT_FILE cfg] else []) @
           [''shot_id-'' @ str_int (entity_id (entity ev)) @ ''-'' @
            strftime (created_at ev) @ ''.pickle''] \<and>
         error_logs (fst (shothammer cfg env ev)) =
           [''Unable to apply all required fields, saving event as '' @
            (''shot_id-'' @ str_int (entity_id (entity ev)) @ ''-'' @
             strftime (created_at ev) @ ''.pickle'') @
            [CHR 0x0A] @ ''Exception message: '' @ msg] \<and>
         commands (fst (shothammer cfg env ev)) = [] \<and>
         snd (shothammer cfg env ev) =
           (case write_pickle env (''shot_id-'' @ str_int (entity_id (entity ev)) @ ''-'' @
                   strftime (created_at ev) @ ''.pickle'') of
              None \<Rightarrow> Inr () | Some e \<Rightarrow> Inl e)"
proof -
  note st = shothammer_template_error [OF assms]
  from st have B: "msg \<in> set (template_errors (fst (bootstrap_engine_to_shot_path env ev)))"
    by (rule conjunct1)
  from st have tr: "fst (shothammer cfg env ev) =
           [Pprint ev, Log Debug Pprint_result,
            Log Debug (Rendered (project_name (the (project ev))))] @
           (if CAPTURE_LAST_EVENT cfg then [Capture (LAST_EVENT_FILE cfg) ev None] else []) @
           fst (bootstrap_engine_to_shot_path env ev)"
    by (elim conjE)
  from st have res: "snd (shothammer cfg env ev) =
           (case snd (bootstrap_engine_to_shot_path env ev) of
              Inl e \<Rightarrow> Inl e | Inr path \<Rightarrow> Inr ())"
    by (elim conjE)
  from B_template_error [OF B] show ?thesis
    by (simp add: tr res proj_append B_commands split: option.splits)
qed

text \<open>
  The scenario without a record: the capture file is named after shot 9502 and the
  event's time to the second, and the callback returns.
\<close>

theorem template_error_is_captured_witness:
  "''missing Sequence'' \<in>
     set (template_errors (fst (shothammer ex_config (ex_env (Inr PNone) None) ex_event))) \<and>
   captures (fst (shothammer ex_config (ex_env (Inr PNone) None) ex_event)) =
     [''shot_id-9502-2023-05-17_09-03-07.pickle''] \<and>
   commands (fst (shothammer ex_config (ex_env (Inr PNone) None) ex_event)) = [] \<and>
   snd (shothammer ex_config (ex_env (Inr PNone) None) ex_event) = Inr ()"
proof -
  have h: "''missing Sequence'' \<in>
     set (template_errors (fst (shothammer ex_config (ex_env (Inr PNone) None) ex_event)))"
    by (simp add: ex_defs run_defs)
  show ?thesis
    using h template_error_is_captured [OF h]
    by (simp add: ex_defs str_int_def str_nat.simps strftime_def zero_pad_def)
qed

text \<open>
  C6 as it is stated fails when the capture file cannot be written: the template error is
  handled, and the \<open>OSError\<close> of the capture leaves the callback.
\<close>

theorem capture_failure_propagates:
  "template_errors (fst (shothammer ex_config (ex_env (Inr PNone) (Some OSError)) ex_event)) =
     [''missing Sequence''] \<and>
   snd (shothammer ex_config (ex_env (Inr PNone) (Some OSError)) ex_event) = Inl OSError"
  by (simp add: ex_defs run_defs)

section \<open>C10: where the capture files go\<close>

lemma digit_char: "n < 10 \<Longrightarrow> ''0123456789'' ! n \<in> set ''0123456789''"
  by (rule nth_mem) simp

lemma str_nat_digits: "set (str_nat n) \<subseteq> set ''0123456789''"
proof (induction n rule: str_nat.induct)
  case (1 n)
  show ?case
  proof (cases "n < 10")
    case True
    with digit_char [of n] show ?thesis
      by (subst str_nat.simps) simp
  next
    case False
    have "n mod 10 < 10"
      by simp
    from digit_char [OF this] 1 [OF False] False show ?thesis
      by (subst str_nat.simps) simp
  qed
qed

lemma str_nat_no_separator:
  "c \<in> set (str_nat n) \<Longrightarrow> c \<noteq> CHR ''/'' \<and> c \<noteq> CHR 0x5C"
  using str_nat_digits [of n] by auto

lemma capture_name_no_separator:
  "list_all (\<lambda>c. c \<noteq> CHR ''/'' \<and> c \<noteq> CHR 0x5C)
     (''shot_id-'' @ str_int i @ ''-'' @ strftime d @ ''.pickle'')"
  by (auto simp: list_all_iff strftime_def zero_pad_def str_int_def
      dest: str_nat_no_separator)

lemma B_captures:
  "captures (fst (bootstrap_engine_to_shot_path env ev)) =
     (if template_errors (fst (bootstrap_engine_to_shot_path env ev)) = [] then []
      else [''shot_id-'' @ str_int (entity_id (entity ev)) @ ''-'' @
            strftime (created_at ev) @ ''.pickle''])"
  by (simp add: fst_B proj_append fst_resolve_shot_kinds fst_shot_fields_kinds
        fst_compose_path split: sum.splits exn.splits)

text \<open>
  Claim C10. The name under which a failed event is saved is
  \<open>shot_id-<id>-<timestamp>.pickle\<close> and contains neither \<open>/\<close> nor a backslash, so it
  names a file of the current directory. Path resolution saves nothing else, and saves
  this file exactly when the template raised an error; it is not given the configuration.
  In the whole callback \<open>LAST_EVENT_FILE\<close> is the name of the first capture only, the one
  made when \<open>CAPTURE_LAST_EVENT\<close> is on, and whatever is captured after it goes to the
  bare name.
\<close>

theorem capture_file_is_bare_name:
  "list_all (\<lambda>c. c \<noteq> CHR ''/'' \<and> c \<noteq> CHR 0x5C)
     (''shot_id-'' @ str_int (entity_id (entity ev)) @ ''-'' @
      strftime (created_at ev) @ ''.pickle'') \<and>
   captures (fst (bootstrap_engine_to_shot_path env ev)) =
     (if template_errors (fst (bootstrap_engine_to_shot_path env ev)) = [] then []
      else [''shot_id-'' @ str_int (entity_id (entity ev)) @ ''-'' @
            strftime (created_at ev) @ ''.pickle'']) \<and>
   (\<exists>rest. captures (fst (shothammer cfg env ev)) =
             (if CAPTURE_LAST_EVENT cfg \<and> project ev \<noteq> None then [LAST_EVENT_FILE cfg]
              else []) @ rest \<and>
           (rest = [] \<or>
            rest = [''shot_id-'' @ str_int (entity_id (entity ev)) @ ''-'' @
                    strftime (created_at ev) @ ''.pickle'']))"
proof -
  have S: "\<exists>rest. captures (fst (shothammer cfg env ev)) =
             (if CAPTURE_LAST_EVENT cfg \<and> project ev \<noteq> None then [LAST_EVENT_FILE cfg]
              else []) @ rest \<and>
           (rest = [] \<or>
            rest = [''shot_id-'' @ str_int (entity_id (entity ev)) @ ''-'' @
                    strftime (created_at ev) @ ''.pickle''])"
  proof (cases "project ev")
    case None
    then show ?thesis
      by (simp add: shothammer_no_project split: sum.splits)
  next
    case (Some pr)
    then show ?thesis
      by (simp add: fst_shothammer proj_append add_tags_kinds remove_tags_kinds B_captures
          split: option.splits sum.splits)
  qed
  show ?thesis
    using S capture_name_no_separator B_captures by blast
qed

section \<open>C2: the kind of change\<close>

lemma resolve_shot_meta: "resolve_shot env (ev\<lparr>meta := m\<rparr>) = resolve_shot env ev"
  by (simp add: resolve_shot_def)

lemma snd_compose_path_meta:
  "snd (compose_path env (ev\<lparr>meta := m\<rparr>) t fm) = snd (compose_path env ev t fm)"
  by (simp add: snd_compose_path split: sum.splits exn.splits)

lemma fst_compose_path_meta:
  "captures (fst (compose_path env (ev\<lparr>meta := m\<rparr>) t fm)) =
     captures (fst (compose_path env ev t fm))"
  by (simp add: fst_compose_path split: sum.splits exn.splits)

lemma snd_B_meta:
  "snd (bootstrap_engine_to_shot_path env (ev\<lparr>meta := m\<rparr>)) =
     snd (bootstrap_engine_to_shot_path env ev)"
  by (simp add: snd_B resolve_shot_meta snd_compose_path_meta split: sum.splits)

lemma fst_B_meta:
  "lookups (fst (bootstrap_engine_to_shot_path env (ev\<lparr>meta := m\<rparr>))) =
     lookups (fst (bootstrap_engine_to_shot_path env ev))"
  "template_calls (fst (bootstrap_engine_to_shot_path env (ev\<lparr>meta := m\<rparr>))) =
     template_calls (fst (bootstrap_engine_to_shot_path env ev))"
  "captures (fst (bootstrap_engine_to_shot_path env (ev\<lparr>meta := m\<rparr>))) =
     captures (fst (bootstrap_engine_to_shot_path env ev))"
  by (simp_all add: resolve_shot_meta fst_B proj_append fst_shot_fields_kinds
        fst_compose_path_kinds snd_compose_path_meta fst_compose_path_meta
      split: sum.splits)

lemma tags_meta_type:
  "add_tags cfg env (ev\<lparr>meta := (meta ev)\<lparr>meta_type := ty\<rparr>\<rparr>) p = add_tags cfg env ev p"
  "remove_tags cfg env (ev\<lparr>meta := (meta ev)\<lparr>meta_type := ty\<rparr>\<rparr>) p = remove_tags cfg env ev p"
  by (simp_all add: add_tags_def remove_tags_def)

text \<open>
  Claim C2, as the code has it. The callback never reads \<open>event['meta']['type']\<close>
  (\<open>is_attribute_change\<close> is defined and not called): changing the kind of change of an
  event to anything else changes neither the lookups, nor the template calls, nor the
  files captured, nor the commands run, nor how the callback ends. Events of another kind
  are kept away only by the filter given at registration.
\<close>

theorem meta_type_is_not_consulted:
  "lookups (fst (shothammer cfg env (ev\<lparr>meta := (meta ev)\<lparr>meta_type := ty\<rparr>\<rparr>))) =
     lookups (fst (shothammer cfg env ev)) \<and>
   template_calls (fst (shothammer cfg env (ev\<lparr>meta := (meta ev)\<lparr>meta_type := ty\<rparr>\<rparr>))) =
     template_calls (fst (shothammer cfg env ev)) \<and>
   captures (fst (shothammer cfg env (ev\<lparr>meta := (meta ev)\<lparr>meta_type := ty\<rparr>\<rparr>))) =
     captures (fst (shothammer cfg env ev)) \<and>
   commands (fst (shothammer cfg env (ev\<lparr>meta := (meta ev)\<lparr>meta_type := ty\<rparr>\<rparr>))) =
     commands (fst (shothammer cfg env ev)) \<and>
   snd (shothammer cfg env (ev\<lparr>meta := (meta ev)\<lparr>meta_type := ty\<rparr>\<rparr>)) =
     snd (shothammer cfg env ev)"
proof (cases "project ev")
  case None
  then have "project (ev\<lparr>meta := (meta ev)\<lparr>meta_type := ty\<rparr>\<rparr>) = None"
    by simp
  with None show ?thesis
    by (simp add: shothammer_no_project get_shot_code_def split: sum.splits)
next
  case (Some pr)
  then have p: "project (ev\<lparr>meta := (meta ev)\<lparr>meta_type := ty\<rparr>\<rparr>) = Some pr"
    by simp
  show ?thesis
    by (simp add: fst_shothammer [OF p] fst_shothammer [OF Some]
          snd_shothammer [OF p] snd_shothammer [OF Some]
          proj_append snd_B_meta fst_B_meta B_commands tags_meta_type
        split: option.splits sum.splits)
qed

text \<open>
  C2 as it is stated fails: the scenario's event with the kind \<open>new_entity\<close> is not an
  attribute change, and it is looked up and its tag set as a keyword all the same.
\<close>

theorem other_change_is_processed:
  "\<not> is_attribute_change ex_event_new_entity \<and>
   lookups (fst (shothammer ex_config (ex_env (Inr ex_shot) None) ex_event_new_entity)) =
     [(''Shot'', [(''id'', ''is'', 9502)],
       [''id'', ''type'', ''code'', ''sg_episode'', ''sg_sequence''])] \<and>
   commands (fst (shothammer ex_config (ex_env (Inr ex_shot) None) ex_event_new_entity)) =
     [''hs keyword add sghs:hero /proj/seq01/ep01/sh010'']"
  by (simp add: is_attribute_change_def ex_defs ex_event_defs run_defs)

end
